theory Spec2Isabelle
  imports Main "HOL-Library.Char_ord" "HOL-Library.List_Lexorder"
begin

section \<open>The Functest backend of Perceval (perceval/backends/opnfv/functest.py)\<close>

text \<open>
  The module retrieves paginated JSON test results from a Functest server. Its code is
  glue around libraries that are not part of the module: the JSON decoder, the HTTP
  client, the date utilities. The embedding below keeps the module's own control flow
  and data flow and takes the libraries either as parameters (record \<open>env\<close>) or, where
  their behaviour on the values at hand is fixed by the Python language, as functions
  written out (\<open>py_getitem\<close>, \<open>py_ge\<close>, \<open>py_str\<close>, ...).
\<close>

subsection \<open>Values decoded from JSON, and Python's exceptions\<close>

text \<open>
  A decoded JSON document: \<open>None\<close>, \<open>bool\<close>, \<open>int\<close>, \<open>str\<close>, \<open>list\<close> and \<open>dict\<close>.
  A \<open>dict\<close> is an association list in insertion order with distinct keys. A string is
  a list of characters, one \<open>char\<close> per code point (code points below 256).
  JSON numbers with a fraction or an exponent (Python floats) are outside the model.
\<close>

datatype json =
    JNull
  | JBool bool
  | JInt int
  | JStr string
  | JArr "json list"
  | JObj "(string \<times> json) list"

datatype error =
    JSONDecodeError
  | KeyError string
  | TypeError
  | InvalidDateError
  | HTTPError
  | BackendError

definition ebind :: "error + 'a \<Rightarrow> ('a \<Rightarrow> error + 'b) \<Rightarrow> error + 'b" where
  "ebind m f = (case m of Inl e \<Rightarrow> Inl e | Inr x \<Rightarrow> f x)"

text \<open>\<open>bool\<close> is a subclass of \<open>int\<close>: \<open>True\<close> counts as 1 and \<open>False\<close> as 0.\<close>

fun as_int :: "json \<Rightarrow> int option" where
  "as_int (JInt i) = Some i"
| "as_int (JBool b) = Some (if b then 1 else 0)"
| "as_int _ = None"

text \<open>\<open>v[key]\<close> with a string key.\<close>

fun py_getitem :: "json \<Rightarrow> string \<Rightarrow> error + json" where
  "py_getitem (JObj kvs) k = (case map_of kvs k of None \<Rightarrow> Inl (KeyError k) | Some v \<Rightarrow> Inr v)"
| "py_getitem _ k = Inl TypeError"

text \<open>\<open>for x in v\<close>: the elements of a list, the keys of a dict, the characters of a string.\<close>

fun py_iter :: "json \<Rightarrow> error + json list" where
  "py_iter (JArr xs) = Inr xs"
| "py_iter (JObj kvs) = Inr (map (\<lambda>kv. JStr (fst kv)) kvs)"
| "py_iter (JStr s) = Inr (map (\<lambda>c. JStr [c]) s)"
| "py_iter _ = Inl TypeError"

text \<open>\<open>v == w\<close>.\<close>

fun py_eq :: "json \<Rightarrow> json \<Rightarrow> bool" where
  "py_eq JNull w = (w = JNull)"
| "py_eq (JBool b) w = (as_int w = Some (if b then 1 else 0))"
| "py_eq (JInt i) w = (as_int w = Some i)"
| "py_eq (JStr s) w = (w = JStr s)"
| "py_eq (JArr xs) w = (case w of JArr ys \<Rightarrow> list_all2 py_eq xs ys | _ \<Rightarrow> False)"
| "py_eq (JObj kvs) w =
     (case w of
        JObj kws \<Rightarrow> length kvs = length kws \<and>
          list_all (\<lambda>kv. case map_of kws (fst kv) of None \<Rightarrow> False
                                                   | Some u \<Rightarrow> py_eq (snd kv) u) kvs
      | _ \<Rightarrow> False)"

text \<open>
  \<open>v >= w\<close>: numbers by value, strings and lists lexicographically (a list comparison
  is decided at the first pair of unequal elements), anything else raises \<open>TypeError\<close>.
\<close>

fun py_ge :: "json \<Rightarrow> json \<Rightarrow> error + bool"
  and py_ge_list :: "json list \<Rightarrow> json list \<Rightarrow> error + bool" where
  "py_ge (JInt i) w = (case as_int w of Some j \<Rightarrow> Inr (j \<le> i) | None \<Rightarrow> Inl TypeError)"
| "py_ge (JBool b) w =
     (case as_int w of Some j \<Rightarrow> Inr (j \<le> (if b then 1 else 0)) | None \<Rightarrow> Inl TypeError)"
| "py_ge (JStr s) w = (case w of JStr t \<Rightarrow> Inr (t \<le> s) | _ \<Rightarrow> Inl TypeError)"
| "py_ge (JArr xs) w = (case w of JArr ys \<Rightarrow> py_ge_list xs ys | _ \<Rightarrow> Inl TypeError)"
| "py_ge JNull w = Inl TypeError"
| "py_ge (JObj kvs) w = Inl TypeError"
| "py_ge_list [] ys = Inr (ys = [])"
| "py_ge_list (x # xs) [] = Inr True"
| "py_ge_list (x # xs) (y # ys) = (if py_eq x y then py_ge_list xs ys else py_ge x y)"

text \<open>\<open>v + 1\<close>.\<close>

definition py_add_one :: "json \<Rightarrow> error + json" where
  "py_add_one v = (case as_int v of Some i \<Rightarrow> Inr (JInt (i + 1)) | None \<Rightarrow> Inl TypeError)"

subsection \<open>\<open>str\<close> and \<open>repr\<close>\<close>

definition digit_char :: "nat \<Rightarrow> char" where
  "digit_char n = ''0123456789'' ! (n mod 10)"

definition hex_char :: "nat \<Rightarrow> char" where
  "hex_char n = ''0123456789abcdef'' ! (n mod 16)"

fun dec_nat :: "nat \<Rightarrow> string" where
  "dec_nat n = (if n < 10 then [digit_char n] else dec_nat (n div 10) @ [digit_char n])"

definition dec_int :: "int \<Rightarrow> string" where
  "dec_int i = (if i < 0 then ''-'' @ dec_nat (nat (- i)) else dec_nat (nat i))"

definition join :: "string \<Rightarrow> string list \<Rightarrow> string" where
  "join sep xs = (case xs of [] \<Rightarrow> [] | y # ys \<Rightarrow> y @ concat (map (\<lambda>z. sep @ z) ys))"

definition printable :: "char \<Rightarrow> bool" where
  "printable c = (let n = (of_char c :: nat)
                  in (32 \<le> n \<and> n \<le> 126) \<or> (161 \<le> n \<and> n \<noteq> 173))"

definition repr_char :: "char \<Rightarrow> char \<Rightarrow> string" where
  "repr_char q c =
     (if c = q \<or> c = CHR 0x5C then [CHR 0x5C, c]
      else if c = CHR 0x09 then [CHR 0x5C, CHR ''t'']
      else if c = CHR 0x0A then [CHR 0x5C, CHR ''n'']
      else if c = CHR 0x0D then [CHR 0x5C, CHR ''r'']
      else if printable c then [c]
      else [CHR 0x5C, CHR ''x'', hex_char (of_char c div 16), hex_char (of_char c)])"

definition repr_str :: "string \<Rightarrow> string" where
  "repr_str s =
     (let q = (if CHR 0x27 \<in> set s \<and> CHR 0x22 \<notin> set s then CHR 0x22 else CHR 0x27)
      in [q] @ concat (map (repr_char q) s) @ [q])"

fun py_repr :: "json \<Rightarrow> string" where
  "py_repr JNull = ''None''"
| "py_repr (JBool b) = (if b then ''True'' else ''False'')"
| "py_repr (JInt i) = dec_int i"
| "py_repr (JStr s) = repr_str s"
| "py_repr (JArr xs) = ''['' @ join '', '' (map py_repr xs) @ '']''"
| "py_repr (JObj kvs) =
     ''{'' @ join '', '' (map (\<lambda>kv. repr_str (fst kv) @ '': '' @ py_repr (snd kv)) kvs) @ ''}''"

definition py_str :: "json \<Rightarrow> string" where
  "py_str v = (case v of JStr s \<Rightarrow> s | _ \<Rightarrow> py_repr v)"

text \<open>\<open>d[k] = v\<close> on a dict: an existing key keeps its place, a new key goes last.\<close>

fun dict_set :: "(string \<times> json) list \<Rightarrow> string \<Rightarrow> json \<Rightarrow> (string \<times> json) list" where
  "dict_set [] k v = [(k, v)]"
| "dict_set (p # ps) k v = (if fst p = k then (k, v) # ps else p # dict_set ps k v)"

subsection \<open>Dates\<close>

text \<open>
  A \<open>datetime\<close> object: its fields, and the offset of its time zone from UTC in minutes
  (\<open>None\<close> for a naive datetime).
\<close>

record datetime =
  year :: nat
  month :: nat
  day :: nat
  hour :: nat
  minute :: nat
  second :: nat
  microsecond :: nat
  utcoffset :: "int option"


definition pad2 :: "nat \<Rightarrow> string" where
  "pad2 n = (if n < 10 then ''0'' @ dec_nat n else dec_nat n)"

definition pad4 :: "nat \<Rightarrow> string" where
  "pad4 n = replicate (4 - length (dec_nat n)) (CHR ''0'') @ dec_nat n"

text \<open>
  \<open>datetime.strftime\<close> for the directives the module uses. \<open>%Y\<close> is the year with
  century, four digits for the years from 1000 on (platforms differ on padding the years
  below 1000; the theorems on the output state the range of years they are about).
\<close>

definition directive :: "datetime \<Rightarrow> char \<Rightarrow> string" where
  "directive d c =
     (if c = CHR ''Y'' then pad4 (year d)
      else if c = CHR ''m'' then pad2 (month d)
      else if c = CHR ''d'' then pad2 (day d)
      else if c = CHR ''H'' then pad2 (hour d)
      else if c = CHR ''M'' then pad2 (minute d)
      else if c = CHR ''S'' then pad2 (second d)
      else [CHR ''%'', c])"

fun strftime :: "datetime \<Rightarrow> string \<Rightarrow> string" where
  "strftime d [] = []"
| "strftime d [c] = [c]"
| "strftime d (c # c' # cs) =
     (if c = CHR ''%'' then directive d c' @ strftime d cs else c # strftime d (c' # cs))"

text \<open>
  Modelled from the spec: \<open>DEFAULT_DATETIME\<close> of \<open>perceval.utils\<close> (not under src/), the
  "fixed minimal-epoch default": 1970-01-01 00:00:00 in UTC.
\<close>

definition DEFAULT_DATETIME :: datetime where
  "DEFAULT_DATETIME =
     \<lparr>year = 1970, month = 1, day = 1, hour = 0, minute = 0, second = 0,
      microsecond = 0, utcoffset = Some 0\<rparr>"

subsection \<open>The libraries the module calls\<close>

datatype http_method = GET | POST

record request =
  req_method :: http_method
  req_url :: string
  req_payload :: "(string \<times> json) list"

text \<open>
  The libraries taken as parameters. \<open>'s\<close> is the state of everything behind the HTTP
  client (the server, the network, the archive); \<open>'t\<close> is the type of the values
  \<open>datetime.timestamp()\<close> returns (Python floats).
  \<^item> \<open>http_fetch\<close>: \<open>HttpClient.fetch\<close>, the text of the response or the exception raised;
  \<^item> \<open>loads\<close>: \<open>json.loads\<close>, \<open>None\<close> when it raises \<open>JSONDecodeError\<close>;
  \<^item> \<open>str_to_datetime\<close>, \<open>datetime_to_utc\<close>, \<open>datetime_utcnow\<close> of
    \<open>grimoirelab_toolkit.datetime\<close> (the last one is the reading of the clock);
  \<^item> \<open>timestamp\<close>: \<open>datetime.timestamp()\<close>.
\<close>

record ('s, 't) env =
  http_fetch :: "request \<Rightarrow> 's \<Rightarrow> (error + string) \<times> 's"
  loads :: "string \<Rightarrow> json option"
  str_to_datetime :: "json \<Rightarrow> error + datetime"
  timestamp :: "datetime \<Rightarrow> 't"
  datetime_to_utc :: "datetime \<Rightarrow> datetime"
  datetime_utcnow :: datetime

definition json_loads :: "('s, 't) env \<Rightarrow> string \<Rightarrow> error + json" where
  "json_loads env raw = (case loads env raw of None \<Rightarrow> Inl JSONDecodeError | Some j \<Rightarrow> Inr j)"

text \<open>
  Modelled from the spec: \<open>urijoin\<close> of \<open>grimoirelab_toolkit.uris\<close> (not under src/). The
  spec gives the request URL as \<open><base_url>/api/v1/results\<close>: the parts, freed of the
  slashes around them, joined by single slashes.
\<close>

definition strip :: "char \<Rightarrow> string \<Rightarrow> string" where
  "strip c s = rev (dropWhile (\<lambda>x. x = c) (rev (dropWhile (\<lambda>x. x = c) s)))"

definition urijoin :: "string list \<Rightarrow> string" where
  "urijoin args = join ''/'' (map (strip (CHR ''/'')) args)"

text \<open>
  Modelled from the spec: \<open>HttpClient.fetch(url, payload=params)\<close> of \<open>perceval.client\<close>
  (not under src/) with no method given "issues one HTTP GET".
\<close>

definition client_fetch ::
  "('s, 't) env \<Rightarrow> string \<Rightarrow> (string \<times> json) list \<Rightarrow> 's \<Rightarrow> request \<times> (error + string) \<times> 's" where
  "client_fetch env url params s =
     (let req = \<lparr>req_method = GET, req_url = url, req_payload = params\<rparr>
      in (req, http_fetch env req s))"

subsection \<open>Generators\<close>

text \<open>
  A run of a generator is recorded as the list of its events in the order they happen,
  the HTTP requests it issues and the values it yields, and the way it ends: it returns
  (\<open>Done\<close>), it raises, or the loop is still running when the fuel given to it is used
  up (\<open>OutOfFuel\<close>).
\<close>

datatype ('r, 'y) event = Request 'r | Yield 'y

datatype outcome = Done | Raised error | OutOfFuel

type_synonym ('r, 'y) run = "('r, 'y) event list \<times> outcome"

definition emit :: "('r, 'y) event list \<Rightarrow> ('r, 'y) run \<Rightarrow> ('r, 'y) run" where
  "emit es r = (es @ fst r, snd r)"

fun requests :: "('r, 'y) event list \<Rightarrow> 'r list" where
  "requests [] = []"
| "requests (Request r # es) = r # requests es"
| "requests (Yield y # es) = requests es"

fun yields :: "('r, 'y) event list \<Rightarrow> 'y list" where
  "yields [] = []"
| "yields (Request r # es) = yields es"
| "yields (Yield y # es) = y # yields es"

text \<open>
  \<open>for y in gen: body\<close>, where the loop is itself the body of a generator. The events of
  \<open>gen\<close> happen as the loop asks for the next value: when the body raises, the loop
  ends there and \<open>gen\<close> is never resumed, so none of its later events happens.
\<close>

fun for_each :: "('y \<Rightarrow> ('r, 'z) run) \<Rightarrow> ('r, 'y) event list \<Rightarrow> outcome \<Rightarrow> ('r, 'z) run" where
  "for_each body [] out = ([], out)"
| "for_each body (Request r # es) out = emit [Request r] (for_each body es out)"
| "for_each body (Yield y # es) out =
     (if snd (body y) = Done then emit (fst (body y)) (for_each body es out) else body y)"

subsection \<open>\<open>FunctestClient\<close>\<close>

definition FUNCTEST_API_PATH :: string where "FUNCTEST_API_PATH = ''/api/v1/''"
definition RRESULTS :: string where "RRESULTS = ''results''"
definition PFROM_DATE :: string where "PFROM_DATE = ''from''"
definition PTO_DATE :: string where "PTO_DATE = ''to''"
definition PPAGE :: string where "PPAGE = ''page''"

text \<open>The parameters of the first request (lines 209 to 217).\<close>

definition results_params :: "datetime \<Rightarrow> datetime option \<Rightarrow> (string \<times> json) list" where
  "results_params from_date to_date =
     (let fdt = strftime from_date ''%Y-%m-%d %H:%M:%S'';
          params = [(PFROM_DATE, JStr fdt), (PPAGE, JInt 1)]
      in case to_date of
           None \<Rightarrow> params
         | Some t \<Rightarrow> dict_set params PTO_DATE (JStr (strftime t ''%Y-%m-%d %H:%M:%S'')))"

text \<open>
  What the loop does with a page once the consumer asks for the next one (lines 225 to
  232): \<open>Inr None\<close> is the \<open>break\<close>, \<open>Inr (Some p)\<close> the new value of \<open>params['page']\<close>.
\<close>

definition next_page :: "('s, 't) env \<Rightarrow> string \<Rightarrow> error + json option" where
  "next_page env content =
     ebind (json_loads env content) (\<lambda>j.
     ebind (py_getitem j ''pagination'') (\<lambda>pg.
     ebind (py_getitem pg ''current_page'') (\<lambda>page.
     ebind (py_getitem pg ''total_pages'') (\<lambda>total_pages.
     ebind (py_ge page total_pages) (\<lambda>last.
       if last then Inr None
       else ebind (py_add_one page) (\<lambda>p. Inr (Some p)))))))"

text \<open>The \<open>while True\<close> loop, one unit of fuel for each turn.\<close>

fun results_loop ::
  "('s, 't) env \<Rightarrow> string \<Rightarrow> nat \<Rightarrow> (string \<times> json) list \<Rightarrow> 's \<Rightarrow> (request, string) run" where
  "results_loop env base_url 0 params s = ([], OutOfFuel)"
| "results_loop env base_url (Suc fuel) params s =
     (let url = urijoin [base_url, FUNCTEST_API_PATH, RRESULTS];
          (req, response, s') = client_fetch env url params s
      in case response of
           Inl e \<Rightarrow> ([Request req], Raised e)
         | Inr content \<Rightarrow>
             emit [Request req, Yield content]
               (case next_page env content of
                  Inl e \<Rightarrow> ([], Raised e)
                | Inr None \<Rightarrow> ([], Done)
                | Inr (Some p) \<Rightarrow> results_loop env base_url fuel (dict_set params PPAGE p) s'))"

definition results ::
  "('s, 't) env \<Rightarrow> string \<Rightarrow> nat \<Rightarrow> datetime \<Rightarrow> datetime option \<Rightarrow> 's \<Rightarrow> (request, string) run" where
  "results env base_url fuel from_date to_date s =
     results_loop env base_url fuel (results_params from_date to_date) s"

subsection \<open>\<open>Functest\<close>\<close>

definition CATEGORY_FUNCTEST :: string where "CATEGORY_FUNCTEST = ''functest''"
definition CATEGORIES :: "string list" where "CATEGORIES = [CATEGORY_FUNCTEST]"

definition parse_json :: "('s, 't) env \<Rightarrow> string \<Rightarrow> error + json" where
  "parse_json env raw_json = ebind (json_loads env raw_json) (\<lambda>result. py_getitem result ''results'')"

text \<open>The body of \<open>for raw_page in pages\<close> (lines 103 to 107).\<close>

definition page_items :: "('s, 't) env \<Rightarrow> string \<Rightarrow> (request, json) run" where
  "page_items env raw_page =
     (case ebind (parse_json env raw_page) py_iter of
        Inl e \<Rightarrow> ([], Raised e)
      | Inr test_data \<Rightarrow> (map Yield test_data, Done))"

definition fetch_items ::
  "('s, 't) env \<Rightarrow> string \<Rightarrow> nat \<Rightarrow> datetime \<Rightarrow> datetime option \<Rightarrow> 's \<Rightarrow> (request, json) run" where
  "fetch_items env url fuel from_date to_date s =
     (let pages = results env url fuel from_date to_date s
      in for_each (page_items env) (fst pages) (snd pages))"

definition metadata_id :: "json \<Rightarrow> error + string" where
  "metadata_id item = ebind (py_getitem item ''_id'') (\<lambda>v. Inr (py_str v))"

definition metadata_updated_on :: "('s, 't) env \<Rightarrow> json \<Rightarrow> error + 't" where
  "metadata_updated_on env item =
     ebind (py_getitem item ''start_date'') (\<lambda>ts.
     ebind (str_to_datetime env ts) (\<lambda>ts. Inr (timestamp env ts)))"

definition metadata_category :: "json \<Rightarrow> string" where
  "metadata_category item = CATEGORY_FUNCTEST"

text \<open>
  Modelled from the spec: \<open>Backend.fetch\<close> and the item it builds, of \<open>perceval.backend\<close>
  (not under src/). The spec, sections 3, 4.1 and 7: a category other than the supported
  one fails before any request; every record of \<open>fetch_items\<close> becomes a Normalized Item
  \<open>{identifier, updated_on, category, payload}\<close>, in order; an error of the identifier or
  the timestamp extraction is fatal for the call.
\<close>

record 't item =
  item_identifier :: string
  item_updated_on :: 't
  item_category :: string
  item_payload :: json

definition metadata :: "('s, 't) env \<Rightarrow> json \<Rightarrow> error + 't item" where
  "metadata env r =
     ebind (metadata_id r) (\<lambda>i.
     ebind (metadata_updated_on env r) (\<lambda>u.
       Inr \<lparr>item_identifier = i, item_updated_on = u,
            item_category = metadata_category r, item_payload = r\<rparr>))"

definition normalize :: "('s, 't) env \<Rightarrow> json \<Rightarrow> (request, 't item) run" where
  "normalize env r = (case metadata env r of Inl e \<Rightarrow> ([], Raised e) | Inr i \<Rightarrow> ([Yield i], Done))"

definition Backend_fetch ::
  "('s, 't) env \<Rightarrow> string \<Rightarrow> nat \<Rightarrow> string \<Rightarrow> datetime \<Rightarrow> datetime option \<Rightarrow> 's
     \<Rightarrow> (request, 't item) run" where
  "Backend_fetch env url fuel cat from_date to_date s =
     (if cat \<notin> set CATEGORIES then ([], Raised BackendError)
      else let items = fetch_items env url fuel from_date to_date s
           in for_each (normalize env) (fst items) (snd items))"

text \<open>
  \<open>Functest.fetch\<close>. An argument the caller leaves out takes the default of the
  signature; \<open>None\<close> is Python's \<open>None\<close>, the only falsy value a date argument can have
  (a \<open>datetime\<close> object is always true).
\<close>

datatype 'a arg = Omitted | Passed 'a

definition arg_or :: "'a \<Rightarrow> 'a arg \<Rightarrow> 'a" where
  "arg_or dflt a = (case a of Omitted \<Rightarrow> dflt | Passed v \<Rightarrow> v)"

definition fetch_kwargs ::
  "('s, 't) env \<Rightarrow> datetime option arg \<Rightarrow> datetime option arg \<Rightarrow> datetime \<times> datetime" where
  "fetch_kwargs env from_arg to_arg =
     (let from_date = arg_or (Some DEFAULT_DATETIME) from_arg;
          to_date = arg_or None to_arg;
          from_date = (case from_date of Some d \<Rightarrow> datetime_to_utc env d | None \<Rightarrow> DEFAULT_DATETIME);
          to_date = (case to_date of Some d \<Rightarrow> datetime_to_utc env d | None \<Rightarrow> datetime_utcnow env)
      in (from_date, to_date))"

definition fetch ::
  "('s, 't) env \<Rightarrow> string \<Rightarrow> nat \<Rightarrow> string arg \<Rightarrow> datetime option arg \<Rightarrow> datetime option arg \<Rightarrow> 's
     \<Rightarrow> (request, 't item) run" where
  "fetch env url fuel cat_arg from_arg to_arg s =
     (let (from_date, to_date) = fetch_kwargs env from_arg to_arg
      in Backend_fetch env url fuel (arg_or CATEGORY_FUNCTEST cat_arg) from_date (Some to_date) s)"

subsection \<open>What the specification names\<close>






subsection \<open>Scenarios\<close>

text \<open>
  The pages of the spec's scenarios, and some malformed ones, with the documents
  \<open>json.loads\<close> decodes them to; a transport that answers the requests with the pages of
  a script, one after the other, whatever is asked.
\<close>

definition page_1of2 :: string where
  \<open>page_1of2 = ''{"results": [{"_id": 1, "start_date": "2017-01-01T00:00:00"}], "pagination": {"current_page": 1, "total_pages": 2}}''\<close>

definition page_2of2 :: string where
  \<open>page_2of2 = ''{"results": [{"_id": "b2", "start_date": "2017-01-02T00:00:00"}], "pagination": {"current_page": 2, "total_pages": 2}}''\<close>

definition page_3of5 :: string where
  \<open>page_3of5 = ''{"results": [], "pagination": {"current_page": 3, "total_pages": 5}}''\<close>

definition page_text_results :: string where
  \<open>page_text_results = ''{"results": "ab", "pagination": {"current_page": 1, "total_pages": 1}}''\<close>

definition page_no_results :: string where
  \<open>page_no_results = ''{"pagination": {"current_page": 1, "total_pages": 1}}''\<close>

definition page_no_start_date :: string where
  \<open>page_no_start_date = ''{"results": [{"_id": 1, "start_date": "2017-01-01T00:00:00"}, {"_id": 2}, {"_id": 3, "start_date": "2017-01-02T00:00:00"}], "pagination": {"current_page": 1, "total_pages": 1}}''\<close>

definition record_1 :: json where
  "record_1 = JObj [(''_id'', JInt 1), (''start_date'', JStr ''2017-01-01T00:00:00'')]"

definition record_b2 :: json where
  "record_b2 = JObj [(''_id'', JStr ''b2''), (''start_date'', JStr ''2017-01-02T00:00:00'')]"

definition record_3 :: json where
  "record_3 = JObj [(''_id'', JInt 3), (''start_date'', JStr ''2017-01-02T00:00:00'')]"

definition pagination :: "int \<Rightarrow> int \<Rightarrow> string \<times> json" where
  "pagination c t = (''pagination'', JObj [(''current_page'', JInt c), (''total_pages'', JInt t)])"

definition documents :: "(string \<times> json) list" where
  "documents =
     [(page_1of2, JObj [(''results'', JArr [record_1]), pagination 1 2]),
      (page_2of2, JObj [(''results'', JArr [record_b2]), pagination 2 2]),
      (page_3of5, JObj [(''results'', JArr []), pagination 3 5]),
      (page_text_results, JObj [(''results'', JStr ''ab''), pagination 1 1]),
      (page_no_results, JObj [pagination 1 1]),
      (page_no_start_date,
         JObj [(''results'', JArr [record_1, JObj [(''_id'', JInt 2)], record_3]), pagination 1 1])]"

definition scripted :: "request \<Rightarrow> string list \<Rightarrow> (error + string) \<times> string list" where
  "scripted req s = (case s of [] \<Rightarrow> (Inl HTTPError, []) | r # rs \<Rightarrow> (Inr r, rs))"

definition midnight :: "nat \<Rightarrow> nat \<Rightarrow> nat \<Rightarrow> datetime" where
  "midnight y m d =
     \<lparr>year = y, month = m, day = d, hour = 0, minute = 0, second = 0,
      microsecond = 0, utcoffset = Some 0\<rparr>"

definition scenario_dates :: "(json \<times> datetime) list" where
  "scenario_dates =
     [(JStr ''2017-01-01T00:00:00'', midnight 2017 1 1),
      (JStr ''2017-01-02T00:00:00'', midnight 2017 1 2)]"

definition scenario_timestamps :: "(datetime \<times> int) list" where
  "scenario_timestamps = [(midnight 2017 1 1, 1483228800), (midnight 2017 1 2, 1483315200)]"

definition scenario :: "(string list, int) env" where
  "scenario =
     \<lparr>http_fetch = scripted,
      loads = map_of documents,
      str_to_datetime = (\<lambda>v. case map_of scenario_dates v of
                                 None \<Rightarrow> Inl InvalidDateError | Some d \<Rightarrow> Inr d),
      timestamp = (\<lambda>d. case map_of scenario_timestamps d of None \<Rightarrow> 0 | Some t \<Rightarrow> t),
      datetime_to_utc = (\<lambda>d. d\<lparr>utcoffset := Some 0\<rparr>),
      datetime_utcnow = midnight 2026 11 4\<rparr>"

definition two_pages :: "(request, string) run" where
  "two_pages =
     results scenario ''http://functest/'' 5 DEFAULT_DATETIME (Some (midnight 2026 11 4))
       [page_1of2, page_2of2]"

definition skipping_pages :: "(request, string) run" where
  "skipping_pages =
     results scenario ''http://functest/'' 5 DEFAULT_DATETIME None [page_3of5, page_2of2]"





definition missing_start_date_records :: "(request, json) run" where
  "missing_start_date_records =
     fetch_items scenario ''http://functest/'' 5 DEFAULT_DATETIME (Some (midnight 2026 11 4))
       [page_no_start_date]"

definition missing_start_date :: "(request, int item) run" where
  "missing_start_date =
     fetch scenario ''http://functest/'' 5 Omitted Omitted Omitted [page_no_start_date]"

section \<open>Properties\<close>

subsection \<open>Events, dicts and loops over generators\<close>

lemma fst_emit [simp]: "fst (emit es r) = es @ fst r"
  by (simp add: emit_def)

lemma snd_emit [simp]: "snd (emit es r) = snd r"
  by (simp add: emit_def)

lemma requests_append [simp]: "requests (es @ fs) = requests es @ requests fs"
  by (induction es rule: requests.induct) simp_all

lemma yields_append [simp]: "yields (es @ fs) = yields es @ yields fs"
  by (induction es rule: yields.induct) simp_all

lemma requests_map_Yield [simp]: "requests (map Yield xs) = []"
  by (induction xs) simp_all

lemma yields_map_Yield [simp]: "yields (map Yield xs) = xs"
  by (induction xs) simp_all

lemma map_of_dict_set: "map_of (dict_set ps k v) k' = (if k' = k then Some v else map_of ps k')"
  by (induction ps) auto

lemma dict_set_twice: "dict_set (dict_set ps k v) k w = dict_set ps k w"
  by (induction ps) auto

lemma dict_set_same: "map_of ps k = Some v \<Longrightarrow> dict_set ps k v = ps"
  by (induction ps) (auto split: if_splits)

text \<open>One turn of the loop.\<close>

lemma results_loop_Suc:
  "results_loop env base_url (Suc fuel) params s =
     (let req = \<lparr>req_method = GET, req_url = urijoin [base_url, FUNCTEST_API_PATH, RRESULTS],
                 req_payload = params\<rparr>
      in case fst (http_fetch env req s) of
           Inl e \<Rightarrow> ([Request req], Raised e)
         | Inr content \<Rightarrow>
             emit [Request req, Yield content]
               (case next_page env content of
                  Inl e \<Rightarrow> ([], Raised e)
                | Inr None \<Rightarrow> ([], Done)
                | Inr (Some p) \<Rightarrow>
                    results_loop env base_url fuel (dict_set params PPAGE p)
                      (snd (http_fetch env req s))))"
  by (simp add: client_fetch_def Let_def case_prod_beta cong: sum.case_cong)


lemma for_each_first_failure:
  "\<forall>x \<in> set (yields pre). snd (body x) = Done \<Longrightarrow> snd (body y) \<noteq> Done \<Longrightarrow>
     for_each body (pre @ Yield y # post) out = emit (fst (for_each body pre Done)) (body y)"
  by (induction body pre out rule: for_each.induct) (simp_all add: emit_def)


lemma requests_for_each_done:
  "\<forall>y \<in> set (yields es). snd (body y) = Done \<and> requests (fst (body y)) = [] \<Longrightarrow>
     requests (fst (for_each body es out)) = requests es"
  by (induction body es out rule: for_each.induct) simp_all



declare results_loop.simps(2) [simp del]

lemma next_page_cases:
  "next_page env content = Inr r \<Longrightarrow>
     \<exists>j pg page total_pages last.
       loads env content = Some j \<and> py_getitem j ''pagination'' = Inr pg \<and>
       py_getitem pg ''current_page'' = Inr page \<and>
       py_getitem pg ''total_pages'' = Inr total_pages \<and>
       py_ge page total_pages = Inr last \<and>
       (if last then r = None else \<exists>c. as_int page = Some c \<and> r = Some (JInt (c + 1)))"
  by (auto simp: next_page_def json_loads_def ebind_def py_add_one_def
           split: option.splits sum.splits if_splits)

lemma next_page_last:
  "loads env content = Some j \<Longrightarrow> py_getitem j ''pagination'' = Inr pg \<Longrightarrow>
   py_getitem pg ''current_page'' = Inr (JInt c) \<Longrightarrow>
   py_getitem pg ''total_pages'' = Inr (JInt tp) \<Longrightarrow> tp \<le> c \<Longrightarrow>
     next_page env content = Inr None"
  by (simp add: next_page_def json_loads_def ebind_def)

lemma next_page_more:
  "loads env content = Some j \<Longrightarrow> py_getitem j ''pagination'' = Inr pg \<Longrightarrow>
   py_getitem pg ''current_page'' = Inr (JInt c) \<Longrightarrow>
   py_getitem pg ''total_pages'' = Inr (JInt tp) \<Longrightarrow> c < tp \<Longrightarrow>
     next_page env content = Inr (Some (JInt (c + 1)))"
  by (simp add: next_page_def json_loads_def ebind_def py_add_one_def)

lemma results_loop_requests:
  "r \<in> set (requests (fst (results_loop env base_url fuel params s))) \<Longrightarrow>
     req_method r = GET \<and> req_url r = urijoin [base_url, FUNCTEST_API_PATH, RRESULTS] \<and>
     (req_payload r = params \<or> (\<exists>p. req_payload r = dict_set params PPAGE p))"
proof (induction fuel arbitrary: params s)
  case 0
  then show ?case by simp
next
  case (Suc fuel)
  then show ?case
    by (fastforce simp: results_loop_Suc Let_def dict_set_twice
          split: sum.splits option.splits)
qed

lemma results_loop_first:
  "requests (fst (results_loop env base_url fuel params s)) \<noteq> [] \<Longrightarrow>
     req_payload (hd (requests (fst (results_loop env base_url fuel params s)))) = params"
  by (cases fuel) (auto simp: results_loop_Suc Let_def split: sum.splits option.splits)

lemma results_loop_next:
  "Suc i < length (requests (fst (results_loop env base_url fuel params s))) \<Longrightarrow>
     \<exists>p. next_page env (yields (fst (results_loop env base_url fuel params s)) ! i) = Inr (Some p) \<and>
         req_payload (requests (fst (results_loop env base_url fuel params s)) ! Suc i) =
           dict_set (req_payload (requests (fst (results_loop env base_url fuel params s)) ! i)) PPAGE p"
proof (induction fuel arbitrary: params s i)
  case 0
  then show ?case by simp
next
  case (Suc fuel)
  let ?req = "\<lparr>req_method = GET, req_url = urijoin [base_url, FUNCTEST_API_PATH, RRESULTS],
                 req_payload = params\<rparr>"
  from Suc.prems obtain content where c: "fst (http_fetch env ?req s) = Inr content"
    by (auto simp: results_loop_Suc Let_def split: sum.splits)
  from Suc.prems c obtain p where p: "next_page env content = Inr (Some p)"
    by (auto simp: results_loop_Suc Let_def split: sum.splits option.splits)
  let ?rest = "results_loop env base_url fuel (dict_set params PPAGE p) (snd (http_fetch env ?req s))"
  have unfold: "fst (results_loop env base_url (Suc fuel) params s) =
      Request ?req # Yield content # fst ?rest"
    using c p by (simp add: results_loop_Suc Let_def)
  show ?case
  proof (cases i)
    case 0
    with Suc.prems unfold have ne: "requests (fst ?rest) \<noteq> []" by auto
    from results_loop_first [OF ne] ne 0 p show ?thesis
      by (simp add: unfold hd_conv_nth)
  next
    case (Suc k)
    with Suc.prems unfold have "Suc k < length (requests (fst ?rest))" by simp
    from Suc.IH [OF this] Suc show ?thesis by (simp add: unfold)
  qed
qed

lemma results_loop_stops:
  "results_loop env base_url fuel params s = (pre @ Yield content # post, out) \<Longrightarrow>
   next_page env content = Inr None \<Longrightarrow> post = [] \<and> out = Done"
proof (induction fuel arbitrary: params s pre)
  case 0
  then show ?case by simp
next
  case (Suc fuel)
  let ?req = "\<lparr>req_method = GET, req_url = urijoin [base_url, FUNCTEST_API_PATH, RRESULTS],
                 req_payload = params\<rparr>"
  from Suc.prems(1) obtain c0 where c: "fst (http_fetch env ?req s) = Inr c0"
    by (cases pre) (auto simp: results_loop_Suc Let_def split: sum.splits)
  let ?tail = "case next_page env c0 of
                  Inl e \<Rightarrow> ([], Raised e)
                | Inr None \<Rightarrow> ([], Done)
                | Inr (Some p) \<Rightarrow>
                    results_loop env base_url fuel (dict_set params PPAGE p)
                      (snd (http_fetch env ?req s))"
  have unfold: "results_loop env base_url (Suc fuel) params s =
      (Request ?req # Yield c0 # fst ?tail, snd ?tail)"
    using c by (simp add: results_loop_Suc Let_def emit_def)
  with Suc.prems(1) have eq: "pre @ Yield content # post = Request ?req # Yield c0 # fst ?tail"
    and out: "out = snd ?tail" by simp_all
  show ?case
  proof (cases pre)
    case Nil
    with eq show ?thesis by simp
  next
    case (Cons e pre')
    note outer = Cons
    show ?thesis
    proof (cases pre')
      case Nil
      with eq outer have "content = c0" "post = fst ?tail" by simp_all
      with Suc.prems(2) out show ?thesis by simp
    next
      case (Cons e' pre'')
      with eq outer have rest: "fst ?tail = pre'' @ Yield content # post" by simp
      then obtain p where p: "next_page env c0 = Inr (Some p)"
        by (auto split: sum.splits option.splits)
      with rest out have
        "results_loop env base_url fuel (dict_set params PPAGE p) (snd (http_fetch env ?req s)) =
           (pre'' @ Yield content # post, out)"
        by (simp add: prod_eq_iff)
      from Suc.IH [OF this Suc.prems(2)] show ?thesis .
    qed
  qed
qed

lemma results_loop_one_request_per_page:
  "results_loop env base_url fuel params s = (pre @ Yield content # post, out) \<Longrightarrow>
     length (requests pre) = Suc (length (yields pre))"
proof (induction fuel arbitrary: params s pre)
  case 0
  then show ?case by simp
next
  case (Suc fuel)
  let ?req = "\<lparr>req_method = GET, req_url = urijoin [base_url, FUNCTEST_API_PATH, RRESULTS],
                 req_payload = params\<rparr>"
  from Suc.prems(1) obtain c0 where c: "fst (http_fetch env ?req s) = Inr c0"
    by (cases pre) (auto simp: results_loop_Suc Let_def split: sum.splits)
  let ?tail = "case next_page env c0 of
                  Inl e \<Rightarrow> ([], Raised e)
                | Inr None \<Rightarrow> ([], Done)
                | Inr (Some p) \<Rightarrow>
                    results_loop env base_url fuel (dict_set params PPAGE p)
                      (snd (http_fetch env ?req s))"
  have unfold: "results_loop env base_url (Suc fuel) params s =
      (Request ?req # Yield c0 # fst ?tail, snd ?tail)"
    using c by (simp add: results_loop_Suc Let_def emit_def)
  with Suc.prems(1) have eq: "pre @ Yield content # post = Request ?req # Yield c0 # fst ?tail"
    and out: "out = snd ?tail" by simp_all
  show ?case
  proof (cases pre)
    case Nil
    with eq show ?thesis by simp
  next
    case (Cons e pre')
    note outer = Cons
    show ?thesis
    proof (cases pre')
      case Nil
      with eq outer show ?thesis by simp
    next
      case (Cons e' pre'')
      with eq outer have rest: "fst ?tail = pre'' @ Yield content # post"
        and hd: "e = Request ?req" "e' = Yield c0" by simp_all
      then obtain p where p: "next_page env c0 = Inr (Some p)"
        by (auto split: sum.splits option.splits)
      with rest out have
        "results_loop env base_url fuel (dict_set params PPAGE p) (snd (http_fetch env ?req s)) =
           (pre'' @ Yield content # post, out)"
        by (simp add: prod_eq_iff)
      from Suc.IH [OF this] outer Cons hd show ?thesis by simp
    qed
  qed
qed

lemma results_loop_fuel_stable:
  "snd (results_loop env base_url fuel params s) \<noteq> OutOfFuel \<Longrightarrow>
     results_loop env base_url (fuel + k) params s = results_loop env base_url fuel params s"
proof (induction fuel arbitrary: params s)
  case 0
  then show ?case by simp
next
  case (Suc fuel)
  then show ?case
    by (auto simp: results_loop_Suc Let_def emit_def split: sum.splits option.splits)
qed

subsection \<open>Formatting dates\<close>

declare dec_nat.simps [simp del]









lemma results_params_page: "map_of (results_params from_date to_date) PPAGE = Some (JInt 1)"
  by (simp add: results_params_def PPAGE_def PFROM_DATE_def PTO_DATE_def Let_def map_of_dict_set
           split: option.splits)



lemma results_requests:
  assumes "r \<in> set (requests (fst (results env base_url fuel from_date to_date s)))"
  shows "req_method r = GET \<and> req_url r = urijoin [base_url, FUNCTEST_API_PATH, RRESULTS] \<and>
         (\<exists>p. req_payload r = dict_set (results_params from_date to_date) PPAGE p)"
proof -
  have "dict_set (results_params from_date to_date) PPAGE (JInt 1) = results_params from_date to_date"
    by (rule dict_set_same) (rule results_params_page)
  with results_loop_requests [OF assms [unfolded results_def]] show ?thesis
    by metis
qed


subsection \<open>The scenarios, evaluated\<close>

lemma two_pages_eval:
  "two_pages =
     ([Request \<lparr>req_method = GET, req_url = ''http://functest/api/v1/results'',
         req_payload = [(''from'', JStr ''1970-01-01 00:00:00''), (''page'', JInt 1),
                        (''to'', JStr ''2026-11-04 00:00:00'')]\<rparr>,
       Yield page_1of2,
       Request \<lparr>req_method = GET, req_url = ''http://functest/api/v1/results'',
         req_payload = [(''from'', JStr ''1970-01-01 00:00:00''), (''page'', JInt 2),
                        (''to'', JStr ''2026-11-04 00:00:00'')]\<rparr>,
       Yield page_2of2], Done)"
  by code_simp

lemma skipping_pages_eval:
  "skipping_pages =
     ([Request \<lparr>req_method = GET, req_url = ''http://functest/api/v1/results'',
         req_payload = [(''from'', JStr ''1970-01-01 00:00:00''), (''page'', JInt 1)]\<rparr>,
       Yield page_3of5,
       Request \<lparr>req_method = GET, req_url = ''http://functest/api/v1/results'',
         req_payload = [(''from'', JStr ''1970-01-01 00:00:00''), (''page'', JInt 4)]\<rparr>,
       Yield page_2of2], Done)"
  by code_simp

lemma loads_page_1of2:
  "loads scenario page_1of2 = Some (JObj [(''results'', JArr [record_1]), pagination 1 2])"
  by code_simp

lemma loads_page_2of2:
  "loads scenario page_2of2 = Some (JObj [(''results'', JArr [record_b2]), pagination 2 2])"
  by code_simp

lemma getitem_pagination:
  "py_getitem (JObj [(''results'', r), pagination c t]) ''pagination'' =
     Inr (JObj [(''current_page'', JInt c), (''total_pages'', JInt t)])"
  by (simp add: pagination_def)







lemma missing_start_date_records_eval:
  "missing_start_date_records =
     ([Request \<lparr>req_method = GET, req_url = ''http://functest/api/v1/results'',
         req_payload = [(''from'', JStr ''1970-01-01 00:00:00''), (''page'', JInt 1),
                        (''to'', JStr ''2026-11-04 00:00:00'')]\<rparr>,
       Yield record_1, Yield (JObj [(''_id'', JInt 2)]), Yield record_3], Done)"
  by code_simp

lemma missing_start_date_eval:
  "missing_start_date =
     ([Request \<lparr>req_method = GET, req_url = ''http://functest/api/v1/results'',
         req_payload = [(''from'', JStr ''1970-01-01 00:00:00''), (''page'', JInt 1),
                        (''to'', JStr ''2026-11-04 00:00:00'')]\<rparr>,
       Yield \<lparr>item_identifier = ''1'', item_updated_on = 1483228800,
               item_category = ''functest'', item_payload = record_1\<rparr>],
      Raised (KeyError ''start_date''))"
  by code_simp

lemma scenario_kwargs:
  "fetch_kwargs scenario Omitted Omitted = (DEFAULT_DATETIME, midnight 2026 11 4)"
  by (simp add: fetch_kwargs_def arg_or_def scenario_def DEFAULT_DATETIME_def midnight_def)

subsection \<open>The requests of \<open>FunctestClient.results\<close>\<close>

text \<open>
  C10. Within one call of \<open>results\<close> the parameters of every request are the parameters
  built before the first request with only the \<open>page\<close> entry set anew, so any two
  requests of the call carry the same \<open>from\<close> and the same \<open>to\<close>.
\<close>

theorem results_window_fixed:
  "\<forall>r \<in> set (requests (fst (results env base_url fuel from_date to_date s))).
     (\<exists>p. req_payload r = dict_set (results_params from_date to_date) PPAGE p) \<and>
     (\<forall>r' \<in> set (requests (fst (results env base_url fuel from_date to_date s))).
        map_of (req_payload r') PFROM_DATE = map_of (req_payload r) PFROM_DATE \<and>
        map_of (req_payload r') PTO_DATE = map_of (req_payload r) PTO_DATE)"
proof (intro ballI conjI)
  fix r assume "r \<in> set (requests (fst (results env base_url fuel from_date to_date s)))"
  from results_requests [OF this]
  show "\<exists>p. req_payload r = dict_set (results_params from_date to_date) PPAGE p" by blast
next
  fix r r'
  assume "r \<in> set (requests (fst (results env base_url fuel from_date to_date s)))"
    and "r' \<in> set (requests (fst (results env base_url fuel from_date to_date s)))"
  from results_requests [OF this(1)] results_requests [OF this(2)]
  obtain p p' where "req_payload r = dict_set (results_params from_date to_date) PPAGE p"
    and "req_payload r' = dict_set (results_params from_date to_date) PPAGE p'" by blast
  then show "map_of (req_payload r') PFROM_DATE = map_of (req_payload r) PFROM_DATE"
    and "map_of (req_payload r') PTO_DATE = map_of (req_payload r) PTO_DATE"
    by (simp_all add: map_of_dict_set PPAGE_def PFROM_DATE_def PTO_DATE_def)
qed

theorem results_window_fixed_witness:
  "length (requests (fst two_pages)) = 2 \<and>
   req_payload (requests (fst two_pages) ! 1) =
     dict_set (results_params DEFAULT_DATETIME (Some (midnight 2026 11 4))) PPAGE (JInt 2) \<and>
   map_of (req_payload (requests (fst two_pages) ! 1)) PFROM_DATE =
     map_of (req_payload (requests (fst two_pages) ! 0)) PFROM_DATE \<and>
   map_of (req_payload (requests (fst two_pages) ! 1)) PTO_DATE =
     map_of (req_payload (requests (fst two_pages) ! 0)) PTO_DATE \<and>
   map_of (req_payload (requests (fst two_pages) ! 0)) PFROM_DATE =
     Some (JStr ''1970-01-01 00:00:00'') \<and>
   map_of (req_payload (requests (fst two_pages) ! 0)) PTO_DATE =
     Some (JStr ''2026-11-04 00:00:00'')"
proof -
  have n: "length (requests (fst two_pages)) = 2" by (simp add: two_pages_eval)
  then have m: "requests (fst two_pages) ! 0 \<in> set (requests (fst two_pages))"
    "requests (fst two_pages) ! 1 \<in> set (requests (fst two_pages))"
    by simp_all
  from results_window_fixed [of scenario "''http://functest/''" 5 DEFAULT_DATETIME
      "Some (midnight 2026 11 4)" "[page_1of2, page_2of2]", folded two_pages_def] m
  have "map_of (req_payload (requests (fst two_pages) ! 1)) PFROM_DATE =
          map_of (req_payload (requests (fst two_pages) ! 0)) PFROM_DATE"
    and "map_of (req_payload (requests (fst two_pages) ! 1)) PTO_DATE =
          map_of (req_payload (requests (fst two_pages) ! 0)) PTO_DATE"
    by blast+
  moreover have "results_params DEFAULT_DATETIME (Some (midnight 2026 11 4)) =
      [(''from'', JStr ''1970-01-01 00:00:00''), (''page'', JInt 1),
       (''to'', JStr ''2026-11-04 00:00:00'')]"
    by code_simp
  ultimately show ?thesis
    by (simp add: two_pages_eval PPAGE_def PFROM_DATE_def PTO_DATE_def)
qed



subsection \<open>Pagination\<close>

text \<open>
  C2. When a page yielded by \<open>results\<close> reports \<open>current_page \<ge> total_pages\<close> (equality
  included), that page is the last event of the run: nothing is requested after it,
  the generator returns, and it has issued one request for each page it yielded.
\<close>

theorem results_stops_at_last_page:
  assumes "fst (results env base_url fuel from_date to_date s) = pre @ Yield content # post"
    and "loads env content = Some j"
    and "py_getitem j ''pagination'' = Inr pg"
    and "py_getitem pg ''current_page'' = Inr (JInt c)"
    and "py_getitem pg ''total_pages'' = Inr (JInt t)"
    and "t \<le> c"
  shows "post = [] \<and> snd (results env base_url fuel from_date to_date s) = Done \<and>
         length (requests (fst (results env base_url fuel from_date to_date s))) =
           length (yields (fst (results env base_url fuel from_date to_date s)))"
proof -
  let ?R = "results env base_url fuel from_date to_date s"
  have run: "results_loop env base_url fuel (results_params from_date to_date) s =
      (pre @ Yield content # post, snd ?R)"
    using assms(1) by (simp add: results_def prod_eq_iff)
  have last: "next_page env content = Inr None"
    using assms(2-6) by (rule next_page_last)
  from results_loop_stops [OF run last] have "post = []" and "snd ?R = Done" by simp_all
  moreover from results_loop_one_request_per_page [OF run]
  have "length (requests pre) = Suc (length (yields pre))" .
  ultimately show ?thesis using assms(1) by simp
qed

theorem results_stops_at_last_page_witness:
  "fst two_pages =
     [Request \<lparr>req_method = GET, req_url = ''http://functest/api/v1/results'',
         req_payload = [(''from'', JStr ''1970-01-01 00:00:00''), (''page'', JInt 1),
                        (''to'', JStr ''2026-11-04 00:00:00'')]\<rparr>,
      Yield page_1of2,
      Request \<lparr>req_method = GET, req_url = ''http://functest/api/v1/results'',
         req_payload = [(''from'', JStr ''1970-01-01 00:00:00''), (''page'', JInt 2),
                        (''to'', JStr ''2026-11-04 00:00:00'')]\<rparr>] @ Yield page_2of2 # [] \<and>
   loads scenario page_2of2 = Some (JObj [(''results'', JArr [record_b2]), pagination 2 2]) \<and>
   py_getitem (JObj [(''results'', JArr [record_b2]), pagination 2 2]) ''pagination'' =
     Inr (JObj [(''current_page'', JInt 2), (''total_pages'', JInt 2)]) \<and>
   py_getitem (JObj [(''current_page'', JInt 2), (''total_pages'', JInt 2)]) ''current_page'' =
     Inr (JInt 2) \<and>
   py_getitem (JObj [(''current_page'', JInt 2), (''total_pages'', JInt 2)]) ''total_pages'' =
     Inr (JInt 2) \<and>
   (2 :: int) \<le> 2 \<and>
   snd two_pages = Done \<and>
   length (requests (fst two_pages)) = length (yields (fst two_pages))"
proof -
  have run: "fst two_pages =
     [Request \<lparr>req_method = GET, req_url = ''http://functest/api/v1/results'',
         req_payload = [(''from'', JStr ''1970-01-01 00:00:00''), (''page'', JInt 1),
                        (''to'', JStr ''2026-11-04 00:00:00'')]\<rparr>,
      Yield page_1of2,
      Request \<lparr>req_method = GET, req_url = ''http://functest/api/v1/results'',
         req_payload = [(''from'', JStr ''1970-01-01 00:00:00''), (''page'', JInt 2),
                        (''to'', JStr ''2026-11-04 00:00:00'')]\<rparr>] @ Yield page_2of2 # []"
    by (simp add: two_pages_eval)
  have c: "py_getitem (JObj [(''current_page'', JInt 2), (''total_pages'', JInt 2)])
      ''current_page'' = Inr (JInt 2)"
    and t: "py_getitem (JObj [(''current_page'', JInt 2), (''total_pages'', JInt 2)])
      ''total_pages'' = Inr (JInt 2)"
    by simp_all
  from results_stops_at_last_page [OF run [unfolded two_pages_def] loads_page_2of2
      getitem_pagination c t, folded two_pages_def]
  show ?thesis using run loads_page_2of2 getitem_pagination c t by simp
qed


text \<open>
  C3, as the code has it. The first request carries \<open>page = 1\<close>; every later request
  carries the \<open>current_page\<close> reported by the response before it, plus one. So the
  requests carry 1, 2, 3, ... when every response reports as \<open>current_page\<close> the page
  that was asked for.
\<close>

theorem results_page_follows_response:
  "(requests (fst (results env base_url fuel from_date to_date s)) \<noteq> [] \<longrightarrow>
      map_of (req_payload (hd (requests (fst (results env base_url fuel from_date to_date s)))))
        ''page'' = Some (JInt 1)) \<and>
   (\<forall>i. Suc i < length (requests (fst (results env base_url fuel from_date to_date s))) \<longrightarrow>
      (\<exists>j pg cur c.
         loads env (yields (fst (results env base_url fuel from_date to_date s)) ! i) = Some j \<and>
         py_getitem j ''pagination'' = Inr pg \<and>
         py_getitem pg ''current_page'' = Inr cur \<and> as_int cur = Some c \<and>
         map_of (req_payload
                   (requests (fst (results env base_url fuel from_date to_date s)) ! Suc i))
           ''page'' = Some (JInt (c + 1)))) \<and>
   ((\<forall>i. Suc i < length (requests (fst (results env base_url fuel from_date to_date s))) \<longrightarrow>
       (\<exists>j pg.
          loads env (yields (fst (results env base_url fuel from_date to_date s)) ! i) = Some j \<and>
          py_getitem j ''pagination'' = Inr pg \<and>
          py_getitem pg ''current_page'' = Inr (JInt (int i + 1)))) \<longrightarrow>
    (\<forall>i. i < length (requests (fst (results env base_url fuel from_date to_date s))) \<longrightarrow>
       map_of (req_payload (requests (fst (results env base_url fuel from_date to_date s)) ! i))
         ''page'' = Some (JInt (int i + 1))))"
proof -
  let ?R = "requests (fst (results env base_url fuel from_date to_date s))"
  let ?Y = "yields (fst (results env base_url fuel from_date to_date s))"
  have first: "map_of (req_payload (hd ?R)) ''page'' = Some (JInt 1)" if "?R \<noteq> []"
    using results_loop_first [of env base_url fuel "results_params from_date to_date" s] that
      results_params_page [of from_date to_date]
    by (simp add: results_def PPAGE_def)
  have step: "\<exists>j pg cur c. loads env (?Y ! i) = Some j \<and> py_getitem j ''pagination'' = Inr pg \<and>
         py_getitem pg ''current_page'' = Inr cur \<and> as_int cur = Some c \<and>
         map_of (req_payload (?R ! Suc i)) ''page'' = Some (JInt (c + 1))"
    if "Suc i < length ?R" for i
  proof -
    from results_loop_next [of i env base_url fuel "results_params from_date to_date" s] that
    obtain p where p: "next_page env (?Y ! i) = Inr (Some p)"
      and q: "req_payload (?R ! Suc i) = dict_set (req_payload (?R ! i)) PPAGE p"
      by (auto simp: results_def)
    from next_page_cases [OF p] obtain j pg cur c where
      "loads env (?Y ! i) = Some j" "py_getitem j ''pagination'' = Inr pg"
      "py_getitem pg ''current_page'' = Inr cur" "as_int cur = Some c" "p = JInt (c + 1)"
      by (auto split: if_splits)
    with q show ?thesis by (simp add: map_of_dict_set PPAGE_def)
  qed
  have echo: "map_of (req_payload (?R ! i)) ''page'' = Some (JInt (int i + 1))"
    if e: "\<forall>i. Suc i < length ?R \<longrightarrow>
       (\<exists>j pg. loads env (?Y ! i) = Some j \<and> py_getitem j ''pagination'' = Inr pg \<and>
          py_getitem pg ''current_page'' = Inr (JInt (int i + 1)))"
      and "i < length ?R" for i
  proof (cases i)
    case 0
    with that(2) first show ?thesis by (auto simp: hd_conv_nth)
  next
    case (Suc k)
    with that(2) have k: "Suc k < length ?R" by simp
    from step [OF k] obtain j pg cur c where a: "loads env (?Y ! k) = Some j"
      "py_getitem j ''pagination'' = Inr pg" "py_getitem pg ''current_page'' = Inr cur"
      "as_int cur = Some c"
      "map_of (req_payload (?R ! Suc k)) ''page'' = Some (JInt (c + 1))" by blast
    from e k obtain j' pg' where b: "loads env (?Y ! k) = Some j'"
      "py_getitem j' ''pagination'' = Inr pg'"
      "py_getitem pg' ''current_page'' = Inr (JInt (int k + 1))" by blast
    from a b have "c = int k + 1" by auto
    with a(5) Suc show ?thesis by simp
  qed
  from first step echo show ?thesis by blast
qed

theorem results_page_follows_response_witness:
  "requests (fst two_pages) \<noteq> [] \<and>
   map_of (req_payload (hd (requests (fst two_pages)))) ''page'' = Some (JInt 1) \<and>
   Suc 0 < length (requests (fst two_pages)) \<and>
   loads scenario (yields (fst two_pages) ! 0) =
     Some (JObj [(''results'', JArr [record_1]), pagination 1 2]) \<and>
   map_of (req_payload (requests (fst two_pages) ! Suc 0)) ''page'' = Some (JInt (1 + 1))"
proof -
  have ne: "requests (fst two_pages) \<noteq> []" and len: "Suc 0 < length (requests (fst two_pages))"
    and y: "yields (fst two_pages) ! 0 = page_1of2"
    by (simp_all add: two_pages_eval)
  note inst = results_page_follows_response [of scenario "''http://functest/''" 5 DEFAULT_DATETIME
      "Some (midnight 2026 11 4)" "[page_1of2, page_2of2]", folded two_pages_def]
  from inst ne have "map_of (req_payload (hd (requests (fst two_pages)))) ''page'' = Some (JInt 1)"
    by blast
  moreover from inst len obtain j pg cur c where
    "loads scenario (yields (fst two_pages) ! 0) = Some j"
    "py_getitem j ''pagination'' = Inr pg" "py_getitem pg ''current_page'' = Inr cur"
    "as_int cur = Some c"
    "map_of (req_payload (requests (fst two_pages) ! Suc 0)) ''page'' = Some (JInt (c + 1))"
    by blast
  then have "map_of (req_payload (requests (fst two_pages) ! Suc 0)) ''page'' = Some (JInt (1 + 1))"
    using y loads_page_1of2 by (auto simp: pagination_def)
  ultimately show ?thesis using ne len y loads_page_1of2 by simp
qed

text \<open>
  C3 as stated fails: the page of the second request is not 2 when the first response
  reports another \<open>current_page\<close> than 1. Here it reports 3 of 5, and page 4 is asked
  for next.
\<close>

theorem results_page_counterexample:
  "loads scenario page_3of5 = Some (JObj [(''results'', JArr []), pagination 3 5]) \<and>
   yields (fst skipping_pages) ! 0 = page_3of5 \<and>
   length (requests (fst skipping_pages)) = 2 \<and>
   map_of (req_payload (requests (fst skipping_pages) ! 0)) ''page'' = Some (JInt 1) \<and>
   map_of (req_payload (requests (fst skipping_pages) ! 1)) ''page'' = Some (JInt 4) \<and>
   map_of (req_payload (requests (fst skipping_pages) ! 1)) ''page'' \<noteq> Some (JInt 2)"
proof -
  have "loads scenario page_3of5 = Some (JObj [(''results'', JArr []), pagination 3 5])"
    by code_simp
  then show ?thesis by (simp add: skipping_pages_eval)
qed

subsection \<open>\<open>Functest.fetch_items\<close>\<close>

lemma requests_page_items [simp]: "requests (fst (page_items env raw)) = []"
  by (simp add: page_items_def split: sum.splits)














subsection \<open>Identity and timestamp of an item\<close>

text \<open>
  C4. For a record with an \<open>_id\<close> field, \<open>metadata_id\<close> returns \<open>str\<close> of its value: the
  decimal numeral of an integer, a string as it is.
\<close>

theorem metadata_id_str:
  assumes "map_of kvs ''_id'' = Some v"
  shows "metadata_id (JObj kvs) = Inr (py_str v) \<and>
         py_str (JInt n) = dec_int n \<and> py_str (JStr s) = s"
  using assms by (simp add: metadata_id_def ebind_def py_str_def)

theorem metadata_id_str_witness:
  "map_of [(''_id'', JInt 1), (''start_date'', JStr ''2017-01-01T00:00:00'')] ''_id'' = Some (JInt 1) \<and>
   metadata_id record_1 = Inr ''1'' \<and>
   map_of [(''_id'', JStr ''b2''), (''start_date'', JStr ''2017-01-02T00:00:00'')] ''_id'' =
     Some (JStr ''b2'') \<and>
   metadata_id record_b2 = Inr ''b2'' \<and>
   py_str (JInt (- 12)) = ''-12''"
proof -
  have a: "map_of [(''_id'', JInt 1), (''start_date'', JStr ''2017-01-01T00:00:00'')] ''_id'' =
      Some (JInt 1)"
    and b: "map_of [(''_id'', JStr ''b2''), (''start_date'', JStr ''2017-01-02T00:00:00'')] ''_id'' =
      Some (JStr ''b2'')"
    by simp_all
  have d: "dec_int 1 = ''1''" "dec_int (- 12) = ''-12''" by code_simp+
  from metadata_id_str [OF a, of 1 "''b2''"] metadata_id_str [OF b, of "- 12" "''b2''"] a b d
  show ?thesis by (simp add: record_1_def record_b2_def)
qed

text \<open>
  C5. For a record whose \<open>start_date\<close> field parses, \<open>metadata_updated_on\<close> returns the
  timestamp of the parsed datetime; two records with the same \<open>start_date\<close> get the same
  value. (Parsing and \<open>timestamp()\<close> are the libraries', taken as functions.)
\<close>

theorem metadata_updated_on_timestamp:
  assumes "map_of kvs ''start_date'' = Some v" and "str_to_datetime env v = Inr d"
    and "map_of kws ''start_date'' = Some v"
  shows "metadata_updated_on env (JObj kvs) = Inr (timestamp env d) \<and>
         metadata_updated_on env (JObj kws) = metadata_updated_on env (JObj kvs)"
  using assms by (simp add: metadata_updated_on_def ebind_def)

theorem metadata_updated_on_timestamp_witness:
  "map_of [(''_id'', JStr ''b2''), (''start_date'', JStr ''2017-01-02T00:00:00'')] ''start_date'' =
     Some (JStr ''2017-01-02T00:00:00'') \<and>
   map_of [(''_id'', JInt 3), (''start_date'', JStr ''2017-01-02T00:00:00'')] ''start_date'' =
     Some (JStr ''2017-01-02T00:00:00'') \<and>
   str_to_datetime scenario (JStr ''2017-01-02T00:00:00'') = Inr (midnight 2017 1 2) \<and>
   timestamp scenario (midnight 2017 1 2) = 1483315200 \<and>
   metadata_updated_on scenario record_b2 = Inr 1483315200 \<and>
   metadata_updated_on scenario record_3 = metadata_updated_on scenario record_b2"
proof -
  have a: "map_of [(''_id'', JStr ''b2''), (''start_date'', JStr ''2017-01-02T00:00:00'')]
      ''start_date'' = Some (JStr ''2017-01-02T00:00:00'')"
    and b: "map_of [(''_id'', JInt 3), (''start_date'', JStr ''2017-01-02T00:00:00'')]
      ''start_date'' = Some (JStr ''2017-01-02T00:00:00'')"
    by simp_all
  have p: "str_to_datetime scenario (JStr ''2017-01-02T00:00:00'') = Inr (midnight 2017 1 2)"
    by code_simp
  have t: "timestamp scenario (midnight 2017 1 2) = 1483315200" by code_simp
  from metadata_updated_on_timestamp [OF a p b] a b p t
  show ?thesis by (simp add: record_b2_def record_3_def)
qed


subsection \<open>\<open>Functest.fetch\<close>\<close>







subsection \<open>Records without identity or timestamp\<close>

lemma requests_normalize [simp]: "requests (fst (normalize env r)) = []"
  by (simp add: normalize_def split: sum.splits)

lemma normalize_ok: "metadata env r = Inr i \<Longrightarrow> normalize env r = ([Yield i], Done)"
  by (simp add: normalize_def)

lemma metadata_payload: "metadata env r = Inr i \<Longrightarrow> item_payload i = r"
  by (auto simp: metadata_def ebind_def split: sum.splits)

lemma payloads_for_each:
  "\<forall>r \<in> set (yields es). \<exists>i. metadata env r = Inr i \<Longrightarrow>
     map item_payload (yields (fst (for_each (normalize env) es out))) = yields es"
proof (induction es)
  case Nil
  then show ?case by simp
next
  case (Cons e es)
  show ?case
  proof (cases e)
    case (Request q)
    with Cons show ?thesis by simp
  next
    case (Yield r)
    with Cons.prems obtain i where i: "metadata env r = Inr i" by auto
    from Cons Yield have "map item_payload (yields (fst (for_each (normalize env) es out))) = yields es"
      by simp
    with i Yield show ?thesis by (simp add: normalize_ok metadata_payload)
  qed
qed

lemma metadata_missing:
  assumes "map_of kvs ''_id'' = None \<or> map_of kvs ''start_date'' = None \<or>
           (\<exists>v e. map_of kvs ''start_date'' = Some v \<and> str_to_datetime env v = Inl e)"
  shows "\<exists>e. metadata env (JObj kvs) = Inl e \<and>
             (e = KeyError ''_id'' \<or> e = KeyError ''start_date'' \<or>
              (\<exists>v. map_of kvs ''start_date'' = Some v \<and> str_to_datetime env v = Inl e))"
proof (cases "map_of kvs ''_id''")
  case None
  then show ?thesis by (simp add: metadata_def metadata_id_def ebind_def)
next
  case (Some a)
  note id = Some
  show ?thesis
  proof (cases "map_of kvs ''start_date''")
    case None
    with id show ?thesis
      by (simp add: metadata_def metadata_id_def metadata_updated_on_def ebind_def)
  next
    case (Some v)
    with id assms obtain e where "str_to_datetime env v = Inl e" by auto
    with id Some show ?thesis
      by (simp add: metadata_def metadata_id_def metadata_updated_on_def ebind_def)
  qed
qed

lemma fetch_for_each:
  assumes "fetch_kwargs env from_arg to_arg = (f, t)"
    and "arg_or CATEGORY_FUNCTEST cat_arg = CATEGORY_FUNCTEST"
  shows "fetch env url fuel cat_arg from_arg to_arg s =
     for_each (normalize env) (fst (fetch_items env url fuel f (Some t) s))
       (snd (fetch_items env url fuel f (Some t) s))"
  using assms by (simp add: fetch_def Backend_fetch_def CATEGORIES_def Let_def)

text \<open>
  C8. When a record of a fetch call has no \<open>_id\<close>, no \<open>start_date\<close>, or a \<open>start_date\<close>
  that does not parse, the call ends there with the error (\<open>KeyError\<close> naming the field,
  or the parser's error): the items of the records before it have been produced, one
  for each, none for the record itself, and none after it; nothing more is requested.
\<close>

theorem fetch_fatal_record:
  assumes "fetch_kwargs env from_arg to_arg = (f, t)"
    and "arg_or CATEGORY_FUNCTEST cat_arg = CATEGORY_FUNCTEST"
    and "fst (fetch_items env url fuel f (Some t) s) = pre @ Yield (JObj kvs) # post"
    and "\<forall>r \<in> set (yields pre). \<exists>i. metadata env r = Inr i"
    and "map_of kvs ''_id'' = None \<or> map_of kvs ''start_date'' = None \<or>
         (\<exists>v e. map_of kvs ''start_date'' = Some v \<and> str_to_datetime env v = Inl e)"
  shows "\<exists>e. snd (fetch env url fuel cat_arg from_arg to_arg s) = Raised e \<and>
             (e = KeyError ''_id'' \<or> e = KeyError ''start_date'' \<or>
              (\<exists>v. map_of kvs ''start_date'' = Some v \<and> str_to_datetime env v = Inl e)) \<and>
             map item_payload (yields (fst (fetch env url fuel cat_arg from_arg to_arg s))) =
               yields pre \<and>
             requests (fst (fetch env url fuel cat_arg from_arg to_arg s)) = requests pre"
proof -
  from metadata_missing [OF assms(5)] obtain e where bad: "metadata env (JObj kvs) = Inl e"
    and e: "e = KeyError ''_id'' \<or> e = KeyError ''start_date'' \<or>
            (\<exists>v. map_of kvs ''start_date'' = Some v \<and> str_to_datetime env v = Inl e)"
    by blast
  from bad have body: "normalize env (JObj kvs) = ([], Raised e)" by (simp add: normalize_def)
  then have nd: "snd (normalize env (JObj kvs)) \<noteq> Done" by simp
  from assms(4) have fin: "\<forall>r \<in> set (yields pre). snd (normalize env r) = Done"
    by (auto simp: normalize_ok)
  have run: "fetch env url fuel cat_arg from_arg to_arg s =
      (fst (for_each (normalize env) pre Done), Raised e)"
    using for_each_first_failure [OF fin nd, of post "snd (fetch_items env url fuel f (Some t) s)"]
      body
    by (simp add: fetch_for_each [OF assms(1,2)] assms(3) emit_def)
  have "map item_payload (yields (fst (for_each (normalize env) pre Done))) = yields pre"
    using assms(4) by (rule payloads_for_each)
  moreover have "requests (fst (for_each (normalize env) pre Done)) = requests pre"
    using fin by (simp add: requests_for_each_done)
  ultimately show ?thesis using run e by simp
qed

theorem fetch_fatal_record_witness:
  "fetch_kwargs scenario Omitted Omitted = (DEFAULT_DATETIME, midnight 2026 11 4) \<and>
   arg_or CATEGORY_FUNCTEST Omitted = CATEGORY_FUNCTEST \<and>
   fst missing_start_date_records =
     [Request \<lparr>req_method = GET, req_url = ''http://functest/api/v1/results'',
         req_payload = [(''from'', JStr ''1970-01-01 00:00:00''), (''page'', JInt 1),
                        (''to'', JStr ''2026-11-04 00:00:00'')]\<rparr>,
      Yield record_1] @ Yield (JObj [(''_id'', JInt 2)]) # [Yield record_3] \<and>
   metadata scenario record_1 =
     Inr \<lparr>item_identifier = ''1'', item_updated_on = 1483228800,
          item_category = ''functest'', item_payload = record_1\<rparr> \<and>
   map_of [(''_id'', JInt 2)] ''start_date'' = None \<and>
   snd missing_start_date = Raised (KeyError ''start_date'') \<and>
   map item_payload (yields (fst missing_start_date)) = [record_1] \<and>
   length (requests (fst missing_start_date)) = 1"
proof -
  let ?pre = "[Request \<lparr>req_method = GET, req_url = ''http://functest/api/v1/results'',
         req_payload = [(''from'', JStr ''1970-01-01 00:00:00''), (''page'', JInt 1),
                        (''to'', JStr ''2026-11-04 00:00:00'')]\<rparr>,
      Yield record_1]"
  have c: "arg_or CATEGORY_FUNCTEST Omitted = CATEGORY_FUNCTEST" by (simp add: arg_or_def)
  have run: "fst missing_start_date_records =
      ?pre @ Yield (JObj [(''_id'', JInt 2)]) # [Yield record_3]"
    by (simp add: missing_start_date_records_eval)
  have m: "metadata scenario record_1 =
     Inr \<lparr>item_identifier = ''1'', item_updated_on = 1483228800,
          item_category = ''functest'', item_payload = record_1\<rparr>"
    by code_simp
  then have ok: "\<forall>r \<in> set (yields ?pre). \<exists>i. metadata scenario r = Inr i" by simp
  have n: "map_of [(''_id'', JInt 2)] ''start_date'' = None" by simp
  then have bad: "map_of [(''_id'', JInt 2)] ''_id'' = None \<or>
      map_of [(''_id'', JInt 2)] ''start_date'' = None \<or>
      (\<exists>v e. map_of [(''_id'', JInt 2)] ''start_date'' = Some v \<and>
             str_to_datetime scenario v = Inl e)"
    by simp
  from fetch_fatal_record [OF scenario_kwargs c run [unfolded missing_start_date_records_def] ok bad,
      folded missing_start_date_def]
  obtain e where "snd missing_start_date = Raised e"
    "map item_payload (yields (fst missing_start_date)) = yields ?pre"
    "requests (fst missing_start_date) = requests ?pre" by blast
  then show ?thesis using scenario_kwargs c run m n
    by (simp add: missing_start_date_eval)
qed

end
